theory Spec2Isabelle
  imports Complex_Main "HOL-Library.Sublist"
begin

text \<open>
  The request validation (\<^verbatim>\<open>schema.ts\<close>) and the HTTP front of the Leader (\<^verbatim>\<open>leader.ts\<close>) of
  the Figma MCP bridge server, as functions over explicit values: a thrown exception is a
  value of a sum type, the Bridge and the runtime (\<^verbatim>\<open>JSON.parse\<close>, \<^verbatim>\<open>server.listen\<close>) are
  parameters, and state is passed in and returned.
\<close>

section \<open>JSON values\<close>

text \<open>
  The values \<^verbatim>\<open>JSON.parse\<close> produces, and the values of the \<^verbatim>\<open>unknown\<close> entries of
  \<^verbatim>\<open>params\<close>. The absent value \<^verbatim>\<open>undefined\<close> is \<open>None\<close> of \<open>json option\<close>. The modelled
  code inspects a number only for its kind, so the payload (a finite number) is a rational.
\<close>

datatype json =
    JNull
  | JBool bool
  | JNum rat
  | JStr string
  | JArr "json list"
  | JObj "(string \<times> json) list"

text \<open>
  A thrown JavaScript value, as the \<^verbatim>\<open>catch\<close> clause of \<^verbatim>\<open>handleRPC\<close> tells them apart:
  an instance of \<^verbatim>\<open>Error\<close> with its \<^verbatim>\<open>message\<close>, or any other value, given by what
  \<^verbatim>\<open>String(err)\<close> yields. A \<^verbatim>\<open>NodeJS.ErrnoException\<close> is an \<^verbatim>\<open>Error\<close> that also has a
  \<^verbatim>\<open>code\<close>.
\<close>

record ErrnoException =
  code :: "string option"
  message :: string

datatype thrown = ErrorObj string | ErrnoObj ErrnoException | NonError string

datatype ('a, 'e) promise = Resolved 'a | Rejected 'e

section \<open>schema.ts\<close>

subsection \<open>The zod combinators the schemas use\<close>

text \<open>
  zod is a dependency, not code of this repository. A schema is modelled by the list of
  issue messages its synchronous parse collects on a value, in the order zod reports them;
  the parse succeeds when the list is empty. A type mismatch stops the checks of that schema;
  an object schema visits the keys of its shape in order and ignores every other key of the
  input; an array schema visits the elements in order. The default message of a type
  mismatch is worded as zod 3 words it; the message of a failed \<^verbatim>\<open>regex\<close> check is the one
  the schema gives.
\<close>

type_synonym zod_schema = "json option \<Rightarrow> string list"

fun zod_typeof :: "json \<Rightarrow> string" where
  "zod_typeof JNull = ''null''"
| "zod_typeof (JBool _) = ''boolean''"
| "zod_typeof (JNum _) = ''number''"
| "zod_typeof (JStr _) = ''string''"
| "zod_typeof (JArr _) = ''array''"
| "zod_typeof (JObj _) = ''object''"

fun invalid_type :: "string \<Rightarrow> json option \<Rightarrow> string" where
  "invalid_type expected None = ''Required''"
| "invalid_type expected (Some v) = ''Expected '' @ expected @ '', received '' @ zod_typeof v"

fun z_string :: zod_schema where
  "z_string (Some (JStr s)) = []"
| "z_string v = [invalid_type ''string'' v]"

fun z_number :: zod_schema where
  "z_number (Some (JNum n)) = []"
| "z_number v = [invalid_type ''number'' v]"

fun z_string_regex :: "(string \<Rightarrow> bool) \<Rightarrow> string \<Rightarrow> zod_schema" where
  "z_string_regex re msg (Some (JStr s)) = (if re s then [] else [msg])"
| "z_string_regex re msg v = [invalid_type ''string'' v]"

fun z_array :: "zod_schema \<Rightarrow> zod_schema" where
  "z_array elem (Some (JArr xs)) = concat (map (\<lambda>x. elem (Some x)) xs)"
| "z_array elem v = [invalid_type ''array'' v]"

fun z_optional :: "zod_schema \<Rightarrow> zod_schema" where
  "z_optional inner None = []"
| "z_optional inner (Some v) = inner (Some v)"

text \<open>The canonical argument object of a tool: its properties by name.\<close>

type_synonym args = "string \<rightharpoonup> json"

definition z_object :: "(string \<times> zod_schema) list \<Rightarrow> args \<Rightarrow> string list" where
  "z_object shape obj = concat (map (\<lambda>(key, schema). schema (obj key)) shape)"

datatype safeParseResult = Success | Failure string "string list"

text \<open>\<open>Failure m ms\<close>: \<^verbatim>\<open>error.issues[0].message\<close> is \<open>m\<close>, the later issues are \<open>ms\<close>.\<close>

definition safeParse :: "(args \<Rightarrow> string list) \<Rightarrow> args \<Rightarrow> safeParseResult" where
  "safeParse schema obj = (case schema obj of [] \<Rightarrow> Success | m # ms \<Rightarrow> Failure m ms)"

subsection \<open>figmaNodeId\<close>

text \<open>
  The regular expression \<^verbatim>\<open>/^\d+:\d+$/\<close>, without flags: \<^verbatim>\<open>\d\<close> is an ASCII digit,
  \<^verbatim>\<open>^\<close> and \<^verbatim>\<open>$\<close> are the two ends of the whole string. The leading \<^verbatim>\<open>\d+\<close> is greedy
  and must stop at the first character that is no digit, which has to be the colon.
\<close>

definition is_digit :: "char \<Rightarrow> bool" where
  "is_digit c = (c \<in> set ''0123456789'')"

definition figmaNodeId_regex :: "string \<Rightarrow> bool" where
  "figmaNodeId_regex s =
     (takeWhile is_digit s \<noteq> [] \<and>
      (case dropWhile is_digit s of
         [] \<Rightarrow> False
       | c # rest \<Rightarrow> c = CHR '':'' \<and> rest \<noteq> [] \<and> list_all is_digit rest))"

definition figmaNodeId_message :: string where
  "figmaNodeId_message = ''Node ID must use colon format, e.g. '' @ [CHR 0x27] @ ''4029:12345'' @ [CHR 0x27]"

definition figmaNodeId :: zod_schema where
  "figmaNodeId = z_string_regex figmaNodeId_regex figmaNodeId_message"

subsection \<open>toolInputSchemas and rpcToArgs\<close>

datatype ToolName = get_node | get_design_context | get_screenshot

fun toolInputSchemas :: "ToolName \<Rightarrow> args \<Rightarrow> string list" where
  "toolInputSchemas get_node = z_object [(''nodeId'', figmaNodeId)]"
| "toolInputSchemas get_design_context = z_object [(''depth'', z_optional z_number)]"
| "toolInputSchemas get_screenshot =
     z_object [(''nodeIds'', z_optional (z_array figmaNodeId)),
               (''format'', z_optional z_string),
               (''scale'', z_optional z_number)]"

text \<open>The own keys of the object literal \<^verbatim>\<open>toolInputSchemas\<close>.\<close>

definition ToolName_of :: "string \<Rightarrow> ToolName option" where
  "ToolName_of tool =
     (if tool = ''get_node'' then Some get_node
      else if tool = ''get_design_context'' then Some get_design_context
      else if tool = ''get_screenshot'' then Some get_screenshot
      else None)"

text \<open>
  \<^verbatim>\<open>nodeIds?.[0]\<close>: \<^verbatim>\<open>undefined\<close> when the list is absent or empty.
\<close>

fun element0 :: "string list option \<Rightarrow> json option" where
  "element0 None = None"
| "element0 (Some []) = None"
| "element0 (Some (x # xs)) = Some (JStr x)"

text \<open>An object literal with one property whose value may be \<^verbatim>\<open>undefined\<close>.\<close>

definition obj1 :: "string \<Rightarrow> json option \<Rightarrow> args" where
  "obj1 key v = (\<lambda>k. if k = key then v else None)"

text \<open>\<^verbatim>\<open>...params\<close>: the own properties of \<^verbatim>\<open>params\<close>; nothing when it is \<^verbatim>\<open>undefined\<close>.\<close>

fun spread :: "args option \<Rightarrow> args" where
  "spread None = Map.empty"
| "spread (Some p) = p"

fun rpcToArgs :: "ToolName \<Rightarrow> string list option \<Rightarrow> args option \<Rightarrow> args" where
  "rpcToArgs get_node nodeIds params = obj1 ''nodeId'' (element0 nodeIds)"
| "rpcToArgs get_design_context nodeIds params = spread params"
| "rpcToArgs get_screenshot nodeIds params =
     obj1 ''nodeIds'' (map_option (\<lambda>xs. JArr (map JStr xs)) nodeIds) ++ spread params"

subsection \<open>validateRpc\<close>

text \<open>
  \<^verbatim>\<open>tool in toolInputSchemas\<close> holds for the own keys of the object and for every property
  it inherits from \<^verbatim>\<open>Object.prototype\<close>, since \<^verbatim>\<open>toolInputSchemas\<close> is a plain object
  literal. These are the properties ECMAScript gives \<^verbatim>\<open>Object.prototype\<close>.
\<close>

definition Object_prototype_properties :: "string list" where
  "Object_prototype_properties =
     [''constructor'', ''__defineGetter__'', ''__defineSetter__'', ''hasOwnProperty'',
      ''__lookupGetter__'', ''__lookupSetter__'', ''isPrototypeOf'', ''propertyIsEnumerable'',
      ''toString'', ''valueOf'', ''__proto__'', ''toLocaleString'']"

definition in_toolInputSchemas :: "string \<Rightarrow> bool" where
  "in_toolInputSchemas tool =
     (case ToolName_of tool of
        Some name \<Rightarrow> True
      | None \<Rightarrow> tool \<in> set Object_prototype_properties)"

text \<open>
  For an inherited property, \<^verbatim>\<open>toolInputSchemas[name]\<close> is a member of \<^verbatim>\<open>Object.prototype\<close>
  and has no \<^verbatim>\<open>safeParse\<close>. The call evaluates its argument \<^verbatim>\<open>rpcToArgs[name](nodeIds, params)\<close>
  first: that throws for \<^verbatim>\<open>__proto__\<close> (an object, not a function) and for
  \<^verbatim>\<open>__defineGetter__\<close> and \<^verbatim>\<open>__defineSetter__\<close> (whose second argument \<^verbatim>\<open>params\<close> is no
  function); for every other member the call of the missing \<^verbatim>\<open>safeParse\<close> throws. Each is a
  \<^verbatim>\<open>TypeError\<close>; the message is the engine's (here as V8 words it).
\<close>

definition inherited_member_call :: "string \<Rightarrow> thrown" where
  "inherited_member_call tool =
     (if tool = ''__proto__'' then ErrorObj ''rpcToArgs[name] is not a function''
      else if tool = ''__defineGetter__'' then
        ErrorObj ''Object.prototype.__defineGetter__: Expecting function''
      else if tool = ''__defineSetter__'' then
        ErrorObj ''Object.prototype.__defineSetter__: Expecting function''
      else ErrorObj ''toolInputSchemas[name].safeParse is not a function'')"

text \<open>
  The result is \<open>Inr None\<close> for \<^verbatim>\<open>null\<close>, \<open>Inr (Some message)\<close> for an error string, and
  \<open>Inl e\<close> when the function throws \<open>e\<close>.
\<close>

definition validateRpc ::
    "string \<Rightarrow> string list option \<Rightarrow> args option \<Rightarrow> thrown + string option" where
  "validateRpc tool nodeIds params =
     (if \<not> in_toolInputSchemas tool then Inr None
      else case ToolName_of tool of
        None \<Rightarrow> Inl (inherited_member_call tool)
      | Some name \<Rightarrow>
          (case safeParse (toolInputSchemas name) (rpcToArgs name nodeIds params) of
             Success \<Rightarrow> Inr None
           | Failure m ms \<Rightarrow> Inr (Some m)))"

section \<open>leader.ts\<close>

subsection \<open>Requests and responses\<close>

text \<open>
  Modelled from the spec: \<^verbatim>\<open>types.ts\<close> (the declarations of \<^verbatim>\<open>RPCRequest\<close> and
  \<^verbatim>\<open>RPCResponse\<close>) is not among the sources. The fields are the ones \<^verbatim>\<open>leader.ts\<close> reads and
  writes, with the types \<^verbatim>\<open>validateRpc\<close> declares for them: a request is
  \<^verbatim>\<open>{tool: string, nodeIds?: string[], params?: object}\<close>, a response carries \<^verbatim>\<open>data\<close> (any
  JSON value) or \<^verbatim>\<open>error\<close> (a string), each of which may be absent.
\<close>

record RPCRequest =
  tool :: string
  nodeIds :: "string list option"
  params :: "args option"

record RPCResponse =
  data :: "json option"
  error :: "string option"

text \<open>What is written to the \<^verbatim>\<open>http.ServerResponse\<close>: status, content type and body.\<close>

datatype payload = Json json | Text string

record ServerResponse =
  status :: nat
  content_type :: "string option"
  body :: payload

text \<open>
  \<^verbatim>\<open>JSON.stringify\<close> of an \<^verbatim>\<open>RPCResponse\<close>, given as the JSON document that the text
  denotes: a property whose value is \<^verbatim>\<open>undefined\<close> is left out of the text.
\<close>

definition JSON_stringify :: "RPCResponse \<Rightarrow> json" where
  "JSON_stringify r =
     JObj ((case data r of None \<Rightarrow> [] | Some v \<Rightarrow> [(''data'', v)]) @
           (case error r of None \<Rightarrow> [] | Some e \<Rightarrow> [(''error'', JStr e)]))"

definition sendJSON :: "nat \<Rightarrow> RPCResponse \<Rightarrow> ServerResponse" where
  "sendJSON st r =
     \<lparr>status = st, content_type = Some ''application/json'', body = Json (JSON_stringify r)\<rparr>"

subsection \<open>handleRPC\<close>

text \<open>\<^verbatim>\<open>err instanceof Error ? err.message : String(err)\<close>\<close>

fun err_message :: "thrown \<Rightarrow> string" where
  "err_message (ErrorObj m) = m"
| "err_message (ErrnoObj e) = message e"
| "err_message (NonError s) = s"

text \<open>The truth value JavaScript gives an optional string: \<^verbatim>\<open>undefined\<close>, \<^verbatim>\<open>null\<close> and the
  empty string are falsy.\<close>

fun truthy :: "string option \<Rightarrow> bool" where
  "truthy None = False"
| "truthy (Some s) = (s \<noteq> [])"

text \<open>
  The handler of the request's \<^verbatim>\<open>end\<close> event, on the chunks the \<^verbatim>\<open>data\<close> events delivered.
  \<^verbatim>\<open>JSON.parse\<close> and the Bridge (\<^verbatim>\<open>bridge.ts\<close> is not among the sources) are parameters:
  \<open>JSON_parse\<close> throws or yields a value, taken at its declared type \<^verbatim>\<open>RPCRequest\<close>;
  \<open>sendWithParams\<close> takes the Bridge's state and gives how the awaited promise settles
  (a synchronous throw is a rejection under \<^verbatim>\<open>await\<close> inside \<^verbatim>\<open>try\<close>) and the Bridge's
  new state. The result is the response written and the Bridge's state afterwards.
\<close>

definition handleRPC ::
    "(string \<Rightarrow> thrown + RPCRequest) \<Rightarrow>
     (string \<Rightarrow> string list option \<Rightarrow> args option \<Rightarrow> 'b \<Rightarrow> (RPCResponse, thrown) promise \<times> 'b) \<Rightarrow>
     string list \<Rightarrow> 'b \<Rightarrow> ServerResponse \<times> 'b" where
  "handleRPC JSON_parse sendWithParams chunks b =
     (case JSON_parse (concat chunks) of
        Inl err \<Rightarrow> (sendJSON 200 \<lparr>data = None, error = Some (err_message err)\<rparr>, b)
      | Inr rpcReq \<Rightarrow>
          (case validateRpc (tool rpcReq) (nodeIds rpcReq) (params rpcReq) of
             Inl err \<Rightarrow> (sendJSON 200 \<lparr>data = None, error = Some (err_message err)\<rparr>, b)
           | Inr validationError \<Rightarrow>
               if truthy validationError
               then (sendJSON 400 \<lparr>data = None, error = validationError\<rparr>, b)
               else
                 (case sendWithParams (tool rpcReq) (nodeIds rpcReq) (params rpcReq) b of
                    (Rejected err, b') \<Rightarrow>
                      (sendJSON 200 \<lparr>data = None, error = Some (err_message err)\<rparr>, b')
                  | (Resolved resp, b') \<Rightarrow>
                      (sendJSON 200
                         (if truthy (error resp) then \<lparr>data = None, error = error resp\<rparr>
                          else \<lparr>data = data resp, error = None\<rparr>),
                       b'))))"

subsection \<open>The handlers start() installs\<close>

record IncomingMessage =
  url :: string
  req_method :: string

record Duplex =
  destroyed :: bool

text \<open>The request listener; \<open>VERSION\<close> (\<^verbatim>\<open>version.ts\<close>) is a parameter.\<close>

definition on_request ::
    "string \<Rightarrow> (string \<Rightarrow> thrown + RPCRequest) \<Rightarrow>
     (string \<Rightarrow> string list option \<Rightarrow> args option \<Rightarrow> 'b \<Rightarrow> (RPCResponse, thrown) promise \<times> 'b) \<Rightarrow>
     IncomingMessage \<Rightarrow> string list \<Rightarrow> 'b \<Rightarrow> ServerResponse \<times> 'b" where
  "on_request VERSION JSON_parse sendWithParams req chunks b =
     (if url req = ''/ping'' \<and> req_method req = ''GET'' then
        (\<lparr>status = 200, content_type = Some ''application/json'',
          body = Json (JObj [(''status'', JStr ''ok''), (''version'', JStr VERSION)])\<rparr>, b)
      else if url req = ''/rpc'' \<and> req_method req = ''POST'' then
        handleRPC JSON_parse sendWithParams chunks b
      else (\<lparr>status = 404, content_type = None, body = Text ''Not found''\<rparr>, b))"

text \<open>
  The \<^verbatim>\<open>upgrade\<close> listener. The Bridge's \<^verbatim>\<open>handleUpgrade\<close> is a parameter acting on the socket
  and on the Bridge's state. \<^verbatim>\<open>req.url\<close> is the request target as node gives it, and the
  comparison is string equality.
\<close>

definition on_upgrade ::
    "(IncomingMessage \<Rightarrow> Duplex \<Rightarrow> string \<Rightarrow> 'b \<Rightarrow> Duplex \<times> 'b) \<Rightarrow>
     IncomingMessage \<Rightarrow> Duplex \<Rightarrow> string \<Rightarrow> 'b \<Rightarrow> Duplex \<times> 'b" where
  "on_upgrade handleUpgrade req socket head b =
     (if url req = ''/ws'' then handleUpgrade req socket head b
      else (socket\<lparr>destroyed := True\<rparr>, b))"

subsection \<open>start\<close>

text \<open>The decimal digits of a port number, as the template literal prints it.\<close>

fun show_nat :: "nat \<Rightarrow> string" where
  "show_nat n =
     (if n < 10 then [''0123456789'' ! n]
      else show_nat (n div 10) @ [''0123456789'' ! (n mod 10)])"

datatype http_Server = Server nat

record 'b Leader =
  port :: nat
  bridge :: 'b
  server :: "http_Server option"

text \<open>The constructor, on the fresh Bridge it creates.\<close>

definition new_Leader :: "nat \<Rightarrow> 'b \<Rightarrow> 'b Leader" where
  "new_Leader p new_Bridge = \<lparr>port = p, bridge = new_Bridge, server = None\<rparr>"

text \<open>
  What the server emits after \<^verbatim>\<open>server.listen(port, callback)\<close>: it calls the callback once it
  listens, or emits \<^verbatim>\<open>error\<close>.
\<close>

datatype listen_event = Listening | ErrorEvent ErrnoException

text \<open>
  \<open>listen\<close> is the operating system's answer to one attempt to bind the port, on the state
  \<open>env\<close> of the system, which every attempt may change. The result is how the promise
  settles, the Leader afterwards and the system's state afterwards. The line written to
  the console is left out.
\<close>

definition start ::
    "(nat \<Rightarrow> 'e \<Rightarrow> listen_event \<times> 'e) \<Rightarrow> 'b Leader \<Rightarrow> 'e \<Rightarrow>
     (unit, thrown) promise \<times> 'b Leader \<times> 'e" where
  "start listen l env =
     (case listen (port l) env of
        (Listening, env') \<Rightarrow> (Resolved (), l\<lparr>server := Some (Server (port l))\<rparr>, env')
      | (ErrorEvent err, env') \<Rightarrow>
          (Rejected
             (if code err = Some ''EADDRINUSE''
              then ErrorObj (''Port '' @ show_nat (port l) @ '' already in use'')
              else ErrnoObj err),
           l, env'))"

section \<open>Auxiliary predicates\<close>

text \<open>A property of a canonical argument is absent or of the given primitive kind.\<close>

fun absent_or_string :: "json option \<Rightarrow> bool" where
  "absent_or_string None = True"
| "absent_or_string (Some (JStr s)) = True"
| "absent_or_string (Some v) = False"

fun absent_or_number :: "json option \<Rightarrow> bool" where
  "absent_or_number None = True"
| "absent_or_number (Some (JNum n)) = True"
| "absent_or_number (Some v) = False"

text \<open>A canonical \<^verbatim>\<open>nodeIds\<close> is absent or a list of strings that all match the pattern.\<close>

fun node_id_string :: "json \<Rightarrow> bool" where
  "node_id_string (JStr s) = figmaNodeId_regex s"
| "node_id_string v = False"

fun absent_or_node_ids :: "json option \<Rightarrow> bool" where
  "absent_or_node_ids None = True"
| "absent_or_node_ids (Some (JArr xs)) = list_all node_id_string xs"
| "absent_or_node_ids (Some v) = False"

text \<open>
  The path of a request target: the part before the query string, which a \<^verbatim>\<open>?\<close> starts.
\<close>

definition request_path :: "string \<Rightarrow> string" where
  "request_path target = takeWhile (\<lambda>c. c \<noteq> CHR ''?'') target"

text \<open>The keys of the JSON object a response carries.\<close>

fun body_keys :: "payload \<Rightarrow> string list" where
  "body_keys (Json (JObj kvs)) = map fst kvs"
| "body_keys other = []"

section \<open>Basic facts\<close>

declare show_nat.simps [simp del]

lemma invalid_type_nonempty: "invalid_type expected v \<noteq> []"
  by (cases v) simp_all

lemma figmaNodeId_message_nonempty: "figmaNodeId_message \<noteq> []"
  by (simp add: figmaNodeId_message_def)

lemma z_string_issue: "m \<in> set (z_string v) \<Longrightarrow> m \<noteq> []"
  by (cases v rule: z_string.cases) (auto simp: invalid_type_nonempty)

lemma z_number_issue: "m \<in> set (z_number v) \<Longrightarrow> m \<noteq> []"
  by (cases v rule: z_number.cases) (auto simp: invalid_type_nonempty)

lemma figmaNodeId_issue: "m \<in> set (figmaNodeId v) \<Longrightarrow> m \<noteq> []"
  unfolding figmaNodeId_def
  by (cases "(figmaNodeId_regex, figmaNodeId_message, v)" rule: z_string_regex.cases)
     (auto simp: invalid_type_nonempty figmaNodeId_message_nonempty split: if_splits)

lemma z_array_issue:
  assumes "\<And>w k. k \<in> set (elem w) \<Longrightarrow> k \<noteq> []" and "m \<in> set (z_array elem v)"
  shows "m \<noteq> []"
  using assms by (cases "(elem, v)" rule: z_array.cases) (auto simp: invalid_type_nonempty)

lemma z_optional_issue:
  assumes "\<And>w k. k \<in> set (inner w) \<Longrightarrow> k \<noteq> []" and "m \<in> set (z_optional inner v)"
  shows "m \<noteq> []"
  using assms by (cases v) auto

lemma toolInputSchemas_issue: "m \<in> set (toolInputSchemas name a) \<Longrightarrow> m \<noteq> []"
proof (cases name)
  case get_node
  assume "m \<in> set (toolInputSchemas name a)"
  with get_node show ?thesis by (auto simp: z_object_def dest: figmaNodeId_issue)
next
  case get_design_context
  assume "m \<in> set (toolInputSchemas name a)"
  with get_design_context have "m \<in> set (z_optional z_number (a ''depth''))"
    by (simp add: z_object_def)
  then show ?thesis by (rule z_optional_issue [rotated]) (rule z_number_issue)
next
  case get_screenshot
  assume "m \<in> set (toolInputSchemas name a)"
  with get_screenshot consider
      "m \<in> set (z_optional (z_array figmaNodeId) (a ''nodeIds''))"
    | "m \<in> set (z_optional z_string (a ''format''))"
    | "m \<in> set (z_optional z_number (a ''scale''))"
    by (auto simp: z_object_def)
  then show ?thesis
  proof cases
    case 1
    then show ?thesis
      by (rule z_optional_issue [rotated]) (erule z_array_issue [rotated], rule figmaNodeId_issue)
  next
    case 2
    then show ?thesis by (rule z_optional_issue [rotated]) (rule z_string_issue)
  next
    case 3
    then show ?thesis by (rule z_optional_issue [rotated]) (rule z_number_issue)
  qed
qed

lemma validateRpc_registered:
  "ToolName_of t = Some name \<Longrightarrow>
     validateRpc t ids ps =
       Inr (case toolInputSchemas name (rpcToArgs name ids ps) of
              [] \<Rightarrow> None | m # ms \<Rightarrow> Some m)"
  by (simp add: validateRpc_def in_toolInputSchemas_def safeParse_def split: list.splits)

lemma validateRpc_unregistered:
  "ToolName_of t = None \<Longrightarrow>
     validateRpc t ids ps =
       (if t \<in> set Object_prototype_properties then Inl (inherited_member_call t) else Inr None)"
  by (simp add: validateRpc_def in_toolInputSchemas_def)

lemma validateRpc_message_nonempty:
  assumes "validateRpc t ids ps = Inr (Some m)"
  shows "m \<noteq> []"
proof (cases "ToolName_of t")
  case None
  with assms show ?thesis by (simp add: validateRpc_unregistered split: if_splits)
next
  case (Some name)
  with assms have "m \<in> set (toolInputSchemas name (rpcToArgs name ids ps))"
    by (auto simp: validateRpc_registered split: list.splits)
  then show ?thesis by (rule toolInputSchemas_issue)
qed

lemma handleRPC_parse_throws:
  "P (concat chunks) = Inl e \<Longrightarrow>
     handleRPC P S chunks b = (sendJSON 200 \<lparr>data = None, error = Some (err_message e)\<rparr>, b)"
  by (simp add: handleRPC_def)

lemma handleRPC_validate_throws:
  "P (concat chunks) = Inr r \<Longrightarrow> validateRpc (tool r) (nodeIds r) (params r) = Inl e \<Longrightarrow>
     handleRPC P S chunks b = (sendJSON 200 \<lparr>data = None, error = Some (err_message e)\<rparr>, b)"
  by (simp add: handleRPC_def)

lemma handleRPC_invalid:
  "P (concat chunks) = Inr r \<Longrightarrow> validateRpc (tool r) (nodeIds r) (params r) = Inr (Some m) \<Longrightarrow>
     handleRPC P S chunks b = (sendJSON 400 \<lparr>data = None, error = Some m\<rparr>, b)"
  by (frule validateRpc_message_nonempty) (simp add: handleRPC_def)

lemma handleRPC_rejected:
  "P (concat chunks) = Inr r \<Longrightarrow> validateRpc (tool r) (nodeIds r) (params r) = Inr None \<Longrightarrow>
   S (tool r) (nodeIds r) (params r) b = (Rejected e, b') \<Longrightarrow>
     handleRPC P S chunks b = (sendJSON 200 \<lparr>data = None, error = Some (err_message e)\<rparr>, b')"
  by (simp add: handleRPC_def)

lemma handleRPC_resolved:
  "P (concat chunks) = Inr r \<Longrightarrow> validateRpc (tool r) (nodeIds r) (params r) = Inr None \<Longrightarrow>
   S (tool r) (nodeIds r) (params r) b = (Resolved resp, b') \<Longrightarrow>
     handleRPC P S chunks b =
       (sendJSON 200 (if truthy (error resp) then \<lparr>data = None, error = error resp\<rparr>
                      else \<lparr>data = data resp, error = None\<rparr>), b')"
  by (simp add: handleRPC_def)

text \<open>The five ways through handleRPC.\<close>

lemma handleRPC_cases:
  obtains
    (parse_throws) e where "P (concat chunks) = Inl e"
  | (validate_throws) r e where "P (concat chunks) = Inr r"
      "validateRpc (tool r) (nodeIds r) (params r) = Inl e"
  | (invalid) r m where "P (concat chunks) = Inr r"
      "validateRpc (tool r) (nodeIds r) (params r) = Inr (Some m)"
  | (rejected) r e b' where "P (concat chunks) = Inr r"
      "validateRpc (tool r) (nodeIds r) (params r) = Inr None"
      "S (tool r) (nodeIds r) (params r) b = (Rejected e, b')"
  | (resolved) r resp b' where "P (concat chunks) = Inr r"
      "validateRpc (tool r) (nodeIds r) (params r) = Inr None"
      "S (tool r) (nodeIds r) (params r) b = (Resolved resp, b')"
proof (cases "P (concat chunks)")
  case (Inl e)
  then show ?thesis by (rule parse_throws)
next
  case (Inr r)
  show ?thesis
  proof (cases "validateRpc (tool r) (nodeIds r) (params r)")
    case (Inl e)
    with Inr show ?thesis by (rule validate_throws)
  next
    case v: (Inr v)
    show ?thesis
    proof (cases v)
      case (Some m)
      with Inr v show ?thesis by (auto intro: invalid)
    next
      case None
      obtain q b' where s: "S (tool r) (nodeIds r) (params r) b = (q, b')"
        by (cases "S (tool r) (nodeIds r) (params r) b")
      show ?thesis
      proof (cases q)
        case (Resolved resp)
        with Inr v None s show ?thesis by (auto intro: resolved)
      next
        case (Rejected e)
        with Inr v None s show ?thesis by (auto intro: rejected)
      qed
    qed
  qed
qed

lemma sendJSON_error_body:
  "body (sendJSON st \<lparr>data = None, error = Some m\<rparr>) = Json (JObj [(''error'', JStr m)])"
  by (simp add: sendJSON_def JSON_stringify_def)

lemma sendJSON_status: "status (sendJSON st r) = st"
  by (simp add: sendJSON_def)

lemma sendJSON_resolved_body:
  "body (sendJSON st (if truthy (error resp) then \<lparr>data = None, error = error resp\<rparr>
                      else \<lparr>data = data resp, error = None\<rparr>)) =
     Json (JObj (if truthy (error resp) then [(''error'', JStr (the (error resp)))]
                 else case data resp of None \<Rightarrow> [] | Some v \<Rightarrow> [(''data'', v)]))"
  by (cases "error resp") (simp_all add: sendJSON_def JSON_stringify_def)

subsection \<open>The regular expression\<close>

lemma figmaNodeId_regex_iff:
  "figmaNodeId_regex s \<longleftrightarrow>
     (\<exists>a b. s = a @ CHR '':'' # b \<and> a \<noteq> [] \<and> b \<noteq> [] \<and>
            list_all is_digit a \<and> list_all is_digit b)"
proof
  assume m: "figmaNodeId_regex s"
  let ?a = "takeWhile is_digit s"
  from m obtain rest where d: "dropWhile is_digit s = CHR '':'' # rest"
    and r: "rest \<noteq> []" "list_all is_digit rest" and a: "?a \<noteq> []"
    by (auto simp: figmaNodeId_regex_def split: list.splits)
  have "s = ?a @ CHR '':'' # rest"
    using takeWhile_dropWhile_id [of is_digit s] d by simp
  moreover have "list_all is_digit ?a"
    by (simp add: list_all_iff) (meson set_takeWhileD)
  ultimately show "\<exists>a b. s = a @ CHR '':'' # b \<and> a \<noteq> [] \<and> b \<noteq> [] \<and>
      list_all is_digit a \<and> list_all is_digit b"
    using a r by blast
next
  assume "\<exists>a b. s = a @ CHR '':'' # b \<and> a \<noteq> [] \<and> b \<noteq> [] \<and>
      list_all is_digit a \<and> list_all is_digit b"
  then obtain a b where s: "s = a @ CHR '':'' # b" and ne: "a \<noteq> []" "b \<noteq> []"
    and da: "list_all is_digit a" and db: "list_all is_digit b" by blast
  have nd: "\<not> is_digit CHR '':''" by (simp add: is_digit_def)
  have "takeWhile is_digit s = a" "dropWhile is_digit s = CHR '':'' # b"
    using s da nd by (simp_all add: list_all_iff)
  then show "figmaNodeId_regex s"
    using ne db by (simp add: figmaNodeId_regex_def)
qed

subsection \<open>validateRpc, tool by tool\<close>

lemma get_node_result:
  "validateRpc ''get_node'' ids ps =
     Inr (case figmaNodeId (element0 ids) of [] \<Rightarrow> None | m # ms \<Rightarrow> Some m)"
  by (simp add: validateRpc_registered ToolName_of_def z_object_def obj1_def)

lemma get_design_context_result:
  "validateRpc ''get_design_context'' ids ps =
     Inr (case z_optional z_number (spread ps ''depth'') of [] \<Rightarrow> None | m # ms \<Rightarrow> Some m)"
  by (simp add: validateRpc_registered ToolName_of_def z_object_def)

lemma screenshot_args_other:
  "k \<noteq> ''nodeIds'' \<Longrightarrow> rpcToArgs get_screenshot ids ps k = spread ps k"
  by (simp add: map_add_def obj1_def split: option.splits)

lemma get_screenshot_result:
  "validateRpc ''get_screenshot'' ids ps =
     Inr (case z_optional (z_array figmaNodeId) (rpcToArgs get_screenshot ids ps ''nodeIds'')
            @ z_optional z_string (spread ps ''format'')
            @ z_optional z_number (spread ps ''scale'') of
          [] \<Rightarrow> None | m # ms \<Rightarrow> Some m)"
  by (simp add: validateRpc_registered ToolName_of_def z_object_def screenshot_args_other
        del: rpcToArgs.simps)

lemma z_array_strings:
  "concat (map ((\<lambda>x. figmaNodeId (Some x)) \<circ> JStr) xs) =
     map (\<lambda>x. figmaNodeId_message) (filter (\<lambda>x. \<not> figmaNodeId_regex x) xs)"
  by (induction xs) (simp_all add: figmaNodeId_def)

lemma z_optional_string_cases:
  "z_optional z_string v = (if absent_or_string v then [] else [invalid_type ''string'' v])"
  by (cases v rule: absent_or_string.cases) simp_all

lemma z_optional_number_cases:
  "z_optional z_number v = (if absent_or_number v then [] else [invalid_type ''number'' v])"
  by (cases v rule: absent_or_number.cases) simp_all

lemma filter_bad_empty: "filter (\<lambda>x. \<not> Q x) xs = [] \<longleftrightarrow> list_all Q xs"
  by (induction xs) simp_all

lemma figmaNodeId_passes: "figmaNodeId (Some x) = [] \<longleftrightarrow> node_id_string x"
  by (cases x) (simp_all add: figmaNodeId_def)

lemma z_array_passes: "z_optional (z_array figmaNodeId) v = [] \<longleftrightarrow> absent_or_node_ids v"
proof (cases v rule: absent_or_node_ids.cases)
  case (2 xs)
  have "concat (map (\<lambda>x. figmaNodeId (Some x)) xs) = [] \<longleftrightarrow> list_all node_id_string xs"
    by (induction xs) (simp_all add: figmaNodeId_passes)
  with 2 show ?thesis by simp
qed simp_all

lemma get_screenshot_no_key:
  assumes "spread ps ''nodeIds'' = None"
  shows "validateRpc ''get_screenshot'' ids ps =
     (if (case ids of None \<Rightarrow> False | Some xs \<Rightarrow> \<not> list_all figmaNodeId_regex xs)
        then Inr (Some figmaNodeId_message)
      else if \<not> absent_or_string (spread ps ''format'')
        then Inr (Some (invalid_type ''string'' (spread ps ''format'')))
      else if \<not> absent_or_number (spread ps ''scale'')
        then Inr (Some (invalid_type ''number'' (spread ps ''scale'')))
      else Inr None)"
proof -
  have a: "rpcToArgs get_screenshot ids ps ''nodeIds'' =
             map_option (\<lambda>xs. JArr (map JStr xs)) ids"
    using assms by (simp add: map_add_def obj1_def)
  have res: "validateRpc ''get_screenshot'' ids ps =
     Inr (case z_optional (z_array figmaNodeId) (map_option (\<lambda>xs. JArr (map JStr xs)) ids)
            @ z_optional z_string (spread ps ''format'')
            @ z_optional z_number (spread ps ''scale'') of
          [] \<Rightarrow> None | m # ms \<Rightarrow> Some m)"
    unfolding get_screenshot_result a ..
  show ?thesis
  proof (cases ids)
    case None
    show ?thesis
      by (subst res) (simp add: None z_optional_string_cases z_optional_number_cases)
  next
    case (Some xs)
    show ?thesis
    proof (cases "filter (\<lambda>x. \<not> figmaNodeId_regex x) xs")
      case Nil
      then have "list_all figmaNodeId_regex xs" by (simp add: filter_bad_empty)
      then show ?thesis
        by (subst res)
           (simp add: Some Nil z_array_strings z_optional_string_cases z_optional_number_cases)
    next
      case (Cons y ys)
      then have "\<not> list_all figmaNodeId_regex xs"
        using filter_bad_empty [of figmaNodeId_regex xs] by simp
      then show ?thesis
        by (subst res) (simp add: Some Cons z_array_strings)
    qed
  qed
qed

lemma get_screenshot_passes:
  "validateRpc ''get_screenshot'' ids ps = Inr None \<longleftrightarrow>
     absent_or_node_ids (rpcToArgs get_screenshot ids ps ''nodeIds'') \<and>
     absent_or_string (spread ps ''format'') \<and> absent_or_number (spread ps ''scale'')"
proof -
  have "validateRpc ''get_screenshot'' ids ps = Inr None \<longleftrightarrow>
      z_optional (z_array figmaNodeId) (rpcToArgs get_screenshot ids ps ''nodeIds'')
        @ z_optional z_string (spread ps ''format'')
        @ z_optional z_number (spread ps ''scale'') = []"
  proof -
    have "(case xs of [] \<Rightarrow> None | m # ms \<Rightarrow> Some m) = None \<longleftrightarrow> xs = []"
      for xs :: "string list"
      by (cases xs) simp_all
    then show ?thesis
      by (subst get_screenshot_result) simp
  qed
  then show ?thesis
    by (simp add: z_array_passes z_optional_string_cases z_optional_number_cases
          del: rpcToArgs.simps)
qed

section \<open>The Validator\<close>

text \<open>
  C2. For every string \<open>nodeId\<close> that matches \<^verbatim>\<open>^\d+:\d+$\<close>, \<^verbatim>\<open>validate("get_node", [nodeId])\<close>
  returns none; for every string that does not match it returns the message of
  \<^verbatim>\<open>figmaNodeId\<close>, which is not empty and names the colon format. Nothing in \<^verbatim>\<open>params\<close>
  changes that.
\<close>

theorem get_node_accepts_colon_ids:
  "validateRpc ''get_node'' (Some [nodeId]) ps =
     Inr (if figmaNodeId_regex nodeId then None else Some figmaNodeId_message) \<and>
   figmaNodeId_message \<noteq> [] \<and>
   prefix ''Node ID must use colon format'' figmaNodeId_message"
  by (simp add: get_node_result figmaNodeId_def figmaNodeId_message_def)

theorem get_node_accepts_colon_ids_witness:
  "validateRpc ''get_node'' (Some [''4029:12345'']) None = Inr None \<and>
   validateRpc ''get_node'' (Some [''4029-12345'']) None = Inr (Some figmaNodeId_message) \<and>
   validateRpc ''get_node'' (Some [''abc'']) None = Inr (Some figmaNodeId_message)"
  using get_node_accepts_colon_ids [of "''4029:12345''" None]
        get_node_accepts_colon_ids [of "''4029-12345''" None]
        get_node_accepts_colon_ids [of "''abc''" None]
  by (simp add: figmaNodeId_regex_def is_digit_def)

text \<open>
  C3 says that \<^verbatim>\<open>validateRpc\<close> returns none for every tool name other than the three
  registered ones. The test \<^verbatim>\<open>tool in toolInputSchemas\<close> also holds for the names the object
  inherits, so for the tool \<^verbatim>\<open>toString\<close>, which has no schema, \<^verbatim>\<open>validateRpc\<close> does not return
  none: it throws a \<^verbatim>\<open>TypeError\<close>.
\<close>

theorem validateRpc_toString_throws:
  "ToolName_of ''toString'' = None \<and>
   validateRpc ''toString'' ids ps = Inl (inherited_member_call ''toString'') \<and>
   validateRpc ''toString'' ids ps \<noteq> Inr None"
  by (simp add: validateRpc_def in_toolInputSchemas_def ToolName_of_def
       Object_prototype_properties_def)

text \<open>
  C5, as amended. For \<^verbatim>\<open>validate("get_screenshot", nodeIds, params)\<close>: if \<^verbatim>\<open>params\<close> has no key
  \<^verbatim>\<open>nodeIds\<close> and the \<^verbatim>\<open>nodeIds\<close> list is present and has an element that does not match
  \<^verbatim>\<open>^\d+:\d+$\<close>, the message of \<^verbatim>\<open>figmaNodeId\<close>, which is not empty, is returned. \<^verbatim>\<open>format\<close> and
  \<^verbatim>\<open>scale\<close> are optional and checked for their kind only: the validation passes exactly when
  the canonical \<^verbatim>\<open>nodeIds\<close> is absent or a list of matching strings, \<^verbatim>\<open>format\<close> is absent or a
  string, and \<^verbatim>\<open>scale\<close> is absent or a number. When it does not pass, the result is a
  message that is not empty.
\<close>

theorem get_screenshot_checks:
  "(spread ps ''nodeIds'' = None \<longrightarrow>
      (case ids of None \<Rightarrow> False | Some xs \<Rightarrow> \<not> list_all figmaNodeId_regex xs) \<longrightarrow>
      validateRpc ''get_screenshot'' ids ps = Inr (Some figmaNodeId_message)) \<and>
   figmaNodeId_message \<noteq> [] \<and>
   (validateRpc ''get_screenshot'' ids ps = Inr None \<longleftrightarrow>
      absent_or_node_ids (rpcToArgs get_screenshot ids ps ''nodeIds'') \<and>
      absent_or_string (spread ps ''format'') \<and>
      absent_or_number (spread ps ''scale'')) \<and>
   (validateRpc ''get_screenshot'' ids ps = Inr None \<or>
    (\<exists>m. validateRpc ''get_screenshot'' ids ps = Inr (Some m) \<and> m \<noteq> []))"
proof -
  have "validateRpc ''get_screenshot'' ids ps = Inr None \<or>
    (\<exists>m. validateRpc ''get_screenshot'' ids ps = Inr (Some m) \<and> m \<noteq> [])"
  proof (cases "validateRpc ''get_screenshot'' ids ps")
    case (Inl e)
    then show ?thesis by (simp add: get_screenshot_result)
  next
    case (Inr r)
    then show ?thesis by (cases r) (auto dest: validateRpc_message_nonempty)
  qed
  then show ?thesis
    using get_screenshot_passes [of ids ps]
    by (simp add: get_screenshot_no_key figmaNodeId_message_nonempty del: rpcToArgs.simps)
qed

theorem get_screenshot_checks_witness:
  "validateRpc ''get_screenshot'' (Some [''4029:1'', ''4029-2''])
       (Some (map_of [(''scale'', JNum 2)])) = Inr (Some figmaNodeId_message) \<and>
   validateRpc ''get_screenshot'' (Some [''4029:1''])
       (Some (map_of [(''scale'', JNum 2), (''format'', JStr ''anything'')])) = Inr None \<and>
   validateRpc ''get_screenshot'' (Some [''4029:1''])
       (Some (map_of [(''scale'', JStr ''2'')])) \<noteq> Inr None"
  using get_screenshot_checks [of "Some (map_of [(''scale'', JNum 2)])"
          "Some [''4029:1'', ''4029-2'']"]
        get_screenshot_checks
          [of "Some (map_of [(''scale'', JNum 2), (''format'', JStr ''anything'')])"
            "Some [''4029:1'']"]
        get_screenshot_checks [of "Some (map_of [(''scale'', JStr ''2'')])" "Some [''4029:1'']"]
  by (simp add: figmaNodeId_regex_def is_digit_def map_add_def obj1_def)

text \<open>
  C5 as it was stated fails: the list \<^verbatim>\<open>nodeIds\<close> is present and its element \<^verbatim>\<open>bad\<close> does not
  match, yet the result is none, because \<^verbatim>\<open>params\<close> has a key \<^verbatim>\<open>nodeIds\<close> of its own and it
  is that value the schema checks.
\<close>

theorem get_screenshot_bad_list_counterexample:
  "validateRpc ''get_screenshot'' (Some [''bad''])
       (Some (map_of [(''nodeIds'', JArr [JStr ''1:2''])])) = Inr None \<and>
   \<not> figmaNodeId_regex ''bad''"
  by (simp add: get_screenshot_result figmaNodeId_def figmaNodeId_regex_def is_digit_def
        map_add_def obj1_def)

text \<open>
  C9. The result of \<^verbatim>\<open>validateRpc("get_node", nodeIds, params)\<close> depends only on the first
  element of \<^verbatim>\<open>nodeIds\<close>: two lists that agree on element 0 (both have none, or both have the
  same one) give the same result, whatever the further elements and whatever the two
  \<^verbatim>\<open>params\<close>.
\<close>

theorem get_node_depends_on_first_only:
  assumes "take 1 xs = take 1 ys"
  shows "validateRpc ''get_node'' (Some xs) ps = validateRpc ''get_node'' (Some ys) qs"
  using assms by (cases xs; cases ys) (simp_all add: get_node_result)

theorem get_node_depends_on_first_only_witness:
  "validateRpc ''get_node'' (Some [''1:2'', ''bad'', ''3:4'']) None =
     validateRpc ''get_node'' (Some [''1:2'']) (Some (map_of [(''nodeId'', JStr ''bad'')])) \<and>
   validateRpc ''get_node'' (Some [''1:2'']) (Some (map_of [(''nodeId'', JStr ''bad'')])) =
     Inr None"
proof -
  have h: "take 1 [''1:2'', ''bad'', ''3:4''] = take 1 [''1:2'']" by simp
  from get_node_depends_on_first_only [OF h, of None "Some (map_of [(''nodeId'', JStr ''bad'')])"]
  show ?thesis
    by (simp add: get_node_result figmaNodeId_def figmaNodeId_regex_def is_digit_def)
qed

text \<open>
  C10. For \<^verbatim>\<open>validateRpc("get_screenshot", nodeIds, params)\<close>, when \<^verbatim>\<open>params\<close> has a key
  \<^verbatim>\<open>nodeIds\<close>, the \<^verbatim>\<open>nodeIds\<close> of the canonical argument is the value \<^verbatim>\<open>params\<close> gives, and the
  top-level list has no effect: any two lists give the same canonical argument and the
  same result.
\<close>

theorem get_screenshot_params_override:
  assumes "p ''nodeIds'' = Some v"
  shows "rpcToArgs get_screenshot ids (Some p) ''nodeIds'' = Some v \<and>
         rpcToArgs get_screenshot ids (Some p) = rpcToArgs get_screenshot ids' (Some p) \<and>
         validateRpc ''get_screenshot'' ids (Some p) =
           validateRpc ''get_screenshot'' ids' (Some p)"
proof -
  have "rpcToArgs get_screenshot n (Some p) = p" for n
    using assms by (auto simp: map_add_def obj1_def fun_eq_iff split: option.splits)
  then show ?thesis using assms by (simp add: get_screenshot_result)
qed

theorem get_screenshot_params_override_witness:
  "rpcToArgs get_screenshot (Some [''bad''])
       (Some (map_of [(''nodeIds'', JArr [JStr ''1:2''])])) ''nodeIds'' = Some (JArr [JStr ''1:2'']) \<and>
   validateRpc ''get_screenshot'' (Some [''bad''])
       (Some (map_of [(''nodeIds'', JArr [JStr ''1:2''])])) =
     validateRpc ''get_screenshot'' None (Some (map_of [(''nodeIds'', JArr [JStr ''1:2''])]))"
proof -
  have h: "map_of [(''nodeIds'', JArr [JStr ''1:2''])] ''nodeIds'' = Some (JArr [JStr ''1:2''])"
    by simp
  from get_screenshot_params_override
         [where p = "map_of [(''nodeIds'', JArr [JStr ''1:2''])]" and v = "JArr [JStr ''1:2'']"
            and ids = "Some [''bad'']" and ids' = None, OF h]
  show ?thesis by simp
qed

section \<open>The RPC endpoint\<close>

lemma on_request_rpc:
  "url req = ''/rpc'' \<Longrightarrow> req_method req = ''POST'' \<Longrightarrow>
     on_request VERSION P S req chunks b = handleRPC P S chunks b"
  by (simp add: on_request_def)

text \<open>
  C1, as amended. For every POST /rpc request the status is 400 exactly when the
  Validator returns an error message, and the body is then \<^verbatim>\<open>{error: message}\<close>. Every
  other outcome (a body that does not parse, an exception of the Validator, a rejection
  or an error of the Bridge) has status 200; nothing escapes the handler, which answers on
  every path. The body at status 200 is \<^verbatim>\<open>{error: message}\<close> or \<^verbatim>\<open>{data: value}\<close>, or the
  empty object \<^verbatim>\<open>{}\<close>: that one exactly when the Bridge resolved with no \<^verbatim>\<open>data\<close> and with
  an \<^verbatim>\<open>error\<close> that is absent or the empty string.
\<close>

theorem handleRPC_status_and_body:
  assumes "res = fst (handleRPC P S chunks b)"
  shows "(status res = 400) =
           (\<exists>r m. P (concat chunks) = Inr r \<and>
                  validateRpc (tool r) (nodeIds r) (params r) = Inr (Some m)) \<and>
         (\<forall>r m. P (concat chunks) = Inr r \<and>
                  validateRpc (tool r) (nodeIds r) (params r) = Inr (Some m) \<longrightarrow>
                body res = Json (JObj [(''error'', JStr m)])) \<and>
         (status res = 400 \<or> status res = 200) \<and>
         (status res = 200 \<longrightarrow>
            (\<exists>m. body res = Json (JObj [(''error'', JStr m)])) \<or>
            (\<exists>v. body res = Json (JObj [(''data'', v)])) \<or>
            body res = Json (JObj [])) \<and>
         (body res = Json (JObj []) \<longleftrightarrow>
            (\<exists>r resp b'. P (concat chunks) = Inr r \<and>
               validateRpc (tool r) (nodeIds r) (params r) = Inr None \<and>
               S (tool r) (nodeIds r) (params r) b = (Resolved resp, b') \<and>
               \<not> truthy (error resp) \<and> data resp = None))"
proof (cases rule: handleRPC_cases [where P = P and chunks = chunks and S = S and b = b])
  case (parse_throws e)
  then show ?thesis
    using assms by (simp add: handleRPC_parse_throws sendJSON_status sendJSON_error_body)
next
  case (validate_throws r e)
  then show ?thesis
    using assms by (simp add: handleRPC_validate_throws sendJSON_status sendJSON_error_body)
next
  case (invalid r m)
  then show ?thesis
    using assms by (simp add: handleRPC_invalid sendJSON_status sendJSON_error_body)
next
  case (rejected r e b')
  then show ?thesis
    using assms by (simp add: handleRPC_rejected sendJSON_status sendJSON_error_body)
next
  case (resolved r resp b')
  then have res: "status res = 200"
      "body res = Json (JObj (if truthy (error resp) then [(''error'', JStr (the (error resp)))]
                 else case data resp of None \<Rightarrow> [] | Some v \<Rightarrow> [(''data'', v)]))"
    using assms by (simp_all add: handleRPC_resolved sendJSON_status sendJSON_resolved_body)
  from resolved res show ?thesis
    by (cases "data resp") auto
qed

theorem handleRPC_status_and_body_witness:
  "status (fst (handleRPC
       (\<lambda>s. if s = ''{\"tool\":\"get_node\",\"nodeIds\":[\"bad-id\"]}''
            then Inr \<lparr>tool = ''get_node'', nodeIds = Some [''bad-id''], params = None\<rparr>
            else Inl (ErrorObj ''Unexpected end of JSON input''))
       (\<lambda>t ids ps n. (Resolved \<lparr>data = Some JNull, error = None\<rparr>, Suc n))
       [''{\"tool\":\"get_node\",'', ''\"nodeIds\":[\"bad-id\"]}''] (0::nat))) = 400 \<and>
   body (fst (handleRPC
       (\<lambda>s. if s = ''{\"tool\":\"get_node\",\"nodeIds\":[\"bad-id\"]}''
            then Inr \<lparr>tool = ''get_node'', nodeIds = Some [''bad-id''], params = None\<rparr>
            else Inl (ErrorObj ''Unexpected end of JSON input''))
       (\<lambda>t ids ps n. (Resolved \<lparr>data = Some JNull, error = None\<rparr>, Suc n))
       [''{\"tool\":\"get_node\",'', ''\"nodeIds\":[\"bad-id\"]}''] (0::nat))) =
     Json (JObj [(''error'', JStr figmaNodeId_message)]) \<and>
   status (fst (handleRPC
       (\<lambda>s. if s = ''{\"tool\":\"get_node\",\"nodeIds\":[\"bad-id\"]}''
            then Inr \<lparr>tool = ''get_node'', nodeIds = Some [''bad-id''], params = None\<rparr>
            else Inl (ErrorObj ''Unexpected end of JSON input''))
       (\<lambda>t ids ps n. (Resolved \<lparr>data = Some JNull, error = None\<rparr>, Suc n))
       [''{\"tool\":'', ''\"get_''] (0::nat))) = 200"
proof -
  let ?P = "\<lambda>s. if s = ''{\"tool\":\"get_node\",\"nodeIds\":[\"bad-id\"]}''
            then Inr \<lparr>tool = ''get_node'', nodeIds = Some [''bad-id''], params = None\<rparr>
            else Inl (ErrorObj ''Unexpected end of JSON input'')"
  let ?S = "\<lambda>(t::string) (ids::string list option) (ps::args option) n.
              (Resolved \<lparr>data = Some JNull, error = None\<rparr>, Suc n)"
  let ?chunks = "[''{\"tool\":\"get_node\",'', ''\"nodeIds\":[\"bad-id\"]}'']"
  let ?cut = "[''{\"tool\":'', ''\"get_'']"
  have v: "validateRpc ''get_node'' (Some [''bad-id'']) None = Inr (Some figmaNodeId_message)"
    by (simp add: get_node_result figmaNodeId_def figmaNodeId_regex_def is_digit_def)
  have p: "?P (concat ?chunks) =
      Inr \<lparr>tool = ''get_node'', nodeIds = Some [''bad-id''], params = None\<rparr>"
    by simp
  have q: "?P (concat ?cut) = Inl (ErrorObj ''Unexpected end of JSON input'')"
    by simp
  from handleRPC_status_and_body [where P = ?P and S = ?S and chunks = ?chunks and b = 0, OF refl]
       handleRPC_status_and_body [where P = ?P and S = ?S and chunks = ?cut and b = 0, OF refl]
       p q v
  show ?thesis by auto
qed

text \<open>
  C1 as it was stated fails: when the Bridge resolves with the empty string as \<^verbatim>\<open>error\<close> and
  no \<^verbatim>\<open>data\<close>, the status is 200 and the body is \<^verbatim>\<open>{}\<close>, which is neither
  \<^verbatim>\<open>{error: message}\<close> nor \<^verbatim>\<open>{data: value}\<close>.
\<close>

theorem handleRPC_body_counterexample:
  "fst (handleRPC
       (\<lambda>s. if s = ''{\"tool\":\"get_design_context\"}''
            then Inr \<lparr>tool = ''get_design_context'', nodeIds = None, params = None\<rparr>
            else Inl (ErrorObj ''Unexpected end of JSON input''))
       (\<lambda>t ids ps n. (Resolved \<lparr>data = None, error = Some ''''\<rparr>, Suc n))
       [''{\"tool\":\"get_design_context\"}''] (0::nat)) =
     \<lparr>status = 200, content_type = Some ''application/json'', body = Json (JObj [])\<rparr>"
  by (simp add: handleRPC_def get_design_context_result sendJSON_def JSON_stringify_def)

text \<open>
  C4, as amended. Every response body sent for POST /rpc is a JSON object that never
  holds both keys \<^verbatim>\<open>data\<close> and \<^verbatim>\<open>error\<close>: its keys are \<^verbatim>\<open>error\<close> alone, \<^verbatim>\<open>data\<close> alone, or none.
  It has no key exactly when the Bridge resolved with no \<^verbatim>\<open>data\<close> and with an \<^verbatim>\<open>error\<close> that
  is absent or the empty string; on every other path it has exactly one of the two keys.
\<close>

theorem handleRPC_body_keys:
  assumes "res = fst (handleRPC P S chunks b)"
  shows "(\<exists>kvs. body res = Json (JObj kvs)) \<and>
         (body_keys (body res) = [''error''] \<or> body_keys (body res) = [''data''] \<or>
          body_keys (body res) = []) \<and>
         (body_keys (body res) = [] \<longleftrightarrow>
            (\<exists>r resp b'. P (concat chunks) = Inr r \<and>
               validateRpc (tool r) (nodeIds r) (params r) = Inr None \<and>
               S (tool r) (nodeIds r) (params r) b = (Resolved resp, b') \<and>
               \<not> truthy (error resp) \<and> data resp = None))"
proof (cases rule: handleRPC_cases [where P = P and chunks = chunks and S = S and b = b])
  case (parse_throws e)
  then show ?thesis
    using assms by (simp add: handleRPC_parse_throws sendJSON_error_body)
next
  case (validate_throws r e)
  then show ?thesis
    using assms by (simp add: handleRPC_validate_throws sendJSON_error_body)
next
  case (invalid r m)
  then show ?thesis
    using assms by (simp add: handleRPC_invalid sendJSON_error_body)
next
  case (rejected r e b')
  then show ?thesis
    using assms by (simp add: handleRPC_rejected sendJSON_error_body)
next
  case (resolved r resp b')
  then have res: "body res =
      Json (JObj (if truthy (error resp) then [(''error'', JStr (the (error resp)))]
                 else case data resp of None \<Rightarrow> [] | Some v \<Rightarrow> [(''data'', v)]))"
    using assms by (simp add: handleRPC_resolved sendJSON_resolved_body)
  from resolved res show ?thesis
    by (cases "data resp") auto
qed

theorem handleRPC_body_keys_witness:
  "body_keys (body (fst (handleRPC
       (\<lambda>s. if s = ''{\"tool\":\"get_screenshot\",\"nodeIds\":[\"4029:1\"],\"params\":{\"scale\":2}}''
            then Inr \<lparr>tool = ''get_screenshot'', nodeIds = Some [''4029:1''],
                       params = Some (map_of [(''scale'', JNum 2)])\<rparr>
            else Inl (ErrorObj ''Unexpected end of JSON input''))
       (\<lambda>t ids ps n. (Resolved \<lparr>data = Some (JObj [(''url'', JStr ''x'')]), error = None\<rparr>, Suc n))
       [''{\"tool\":\"get_screenshot\",\"nodeIds\":[\"4029:1\"],\"params\":{\"scale\":2}}'']
       (0::nat)))) = [''data'']"
proof -
  let ?P = "\<lambda>s. if s = ''{\"tool\":\"get_screenshot\",\"nodeIds\":[\"4029:1\"],\"params\":{\"scale\":2}}''
            then Inr \<lparr>tool = ''get_screenshot'', nodeIds = Some [''4029:1''],
                       params = Some (map_of [(''scale'', JNum 2)])\<rparr>
            else Inl (ErrorObj ''Unexpected end of JSON input'')"
  let ?S = "\<lambda>(t::string) (ids::string list option) (ps::args option) n.
              (Resolved \<lparr>data = Some (JObj [(''url'', JStr ''x'')]), error = None\<rparr>, Suc n)"
  let ?chunks = "[''{\"tool\":\"get_screenshot\",\"nodeIds\":[\"4029:1\"],\"params\":{\"scale\":2}}'']"
  have k: "body_keys (body (fst (handleRPC ?P ?S ?chunks 0))) \<noteq> [''error'']"
    by (simp add: handleRPC_def get_screenshot_result figmaNodeId_def figmaNodeId_regex_def
          is_digit_def map_add_def obj1_def sendJSON_def JSON_stringify_def)
  from handleRPC_body_keys [where P = ?P and S = ?S and chunks = ?chunks and b = 0, OF refl] k
  show ?thesis by auto
qed

text \<open>
  C4 as it was stated fails: when the Bridge resolves with neither \<^verbatim>\<open>data\<close> nor \<^verbatim>\<open>error\<close>
  (the target's reply carried only the id), the body sent has neither key.
\<close>

theorem handleRPC_neither_key_counterexample:
  "body_keys (body (fst (handleRPC
       (\<lambda>s. if s = ''{\"tool\":\"get_design_context\"}''
            then Inr \<lparr>tool = ''get_design_context'', nodeIds = None, params = None\<rparr>
            else Inl (ErrorObj ''Unexpected end of JSON input''))
       (\<lambda>t ids ps n. (Resolved \<lparr>data = None, error = None\<rparr>, Suc n))
       [''{\"tool\":\"get_design_context\"}''] (0::nat)))) = [] \<and>
   body (fst (handleRPC
       (\<lambda>s. if s = ''{\"tool\":\"get_design_context\"}''
            then Inr \<lparr>tool = ''get_design_context'', nodeIds = None, params = None\<rparr>
            else Inl (ErrorObj ''Unexpected end of JSON input''))
       (\<lambda>t ids ps n. (Resolved \<lparr>data = None, error = None\<rparr>, Suc n))
       [''{\"tool\":\"get_design_context\"}''] (0::nat))) = Json (JObj [])"
  by (simp add: handleRPC_def get_design_context_result sendJSON_def JSON_stringify_def)

text \<open>
  C6. When the Validator returns an error for a POST /rpc request, the Bridge is not
  invoked: the Bridge's state after the request is its state before, and the outcome is
  the same whatever \<^verbatim>\<open>sendWithParams\<close> would do, so it is not called.
\<close>

theorem handleRPC_invalid_skips_bridge:
  assumes "P (concat chunks) = Inr r"
    and "validateRpc (tool r) (nodeIds r) (params r) = Inr (Some m)"
  shows "snd (handleRPC P S chunks b) = b \<and>
         handleRPC P S chunks b = handleRPC P S' chunks b \<and>
         fst (handleRPC P S chunks b) = sendJSON 400 \<lparr>data = None, error = Some m\<rparr>"
  using assms by (simp add: handleRPC_invalid)

theorem handleRPC_invalid_skips_bridge_witness:
  "snd (handleRPC
       (\<lambda>s. if s = ''{\"tool\":\"get_node\",\"nodeIds\":[\"bad-id\"]}''
            then Inr \<lparr>tool = ''get_node'', nodeIds = Some [''bad-id''], params = None\<rparr>
            else Inl (ErrorObj ''Unexpected end of JSON input''))
       (\<lambda>t ids ps n. (Resolved \<lparr>data = Some JNull, error = None\<rparr>, Suc n))
       [''{\"tool\":\"get_node\",\"nodeIds\":[\"bad-id\"]}''] (0::nat)) = 0 \<and>
   status (fst (handleRPC
       (\<lambda>s. if s = ''{\"tool\":\"get_node\",\"nodeIds\":[\"bad-id\"]}''
            then Inr \<lparr>tool = ''get_node'', nodeIds = Some [''bad-id''], params = None\<rparr>
            else Inl (ErrorObj ''Unexpected end of JSON input''))
       (\<lambda>t ids ps n. (Resolved \<lparr>data = Some JNull, error = None\<rparr>, Suc n))
       [''{\"tool\":\"get_node\",\"nodeIds\":[\"bad-id\"]}''] (0::nat))) = 400"
proof -
  let ?P = "\<lambda>s. if s = ''{\"tool\":\"get_node\",\"nodeIds\":[\"bad-id\"]}''
            then Inr \<lparr>tool = ''get_node'', nodeIds = Some [''bad-id''], params = None\<rparr>
            else Inl (ErrorObj ''Unexpected end of JSON input'')"
  let ?S = "\<lambda>(t::string) (ids::string list option) (ps::args option) n.
              (Resolved \<lparr>data = Some JNull, error = None\<rparr>, Suc n)"
  let ?chunks = "[''{\"tool\":\"get_node\",\"nodeIds\":[\"bad-id\"]}'']"
  have p: "?P (concat ?chunks) =
      Inr \<lparr>tool = ''get_node'', nodeIds = Some [''bad-id''], params = None\<rparr>"
    by simp
  have v: "validateRpc
       (tool \<lparr>tool = ''get_node'', nodeIds = Some [''bad-id''], params = None\<rparr>)
       (nodeIds \<lparr>tool = ''get_node'', nodeIds = Some [''bad-id''], params = None\<rparr>)
       (params \<lparr>tool = ''get_node'', nodeIds = Some [''bad-id''], params = None\<rparr>) =
     Inr (Some figmaNodeId_message)"
    by (simp add: get_node_result figmaNodeId_def figmaNodeId_regex_def is_digit_def)
  from handleRPC_invalid_skips_bridge
         [where P = ?P and chunks = ?chunks and S = ?S and S' = ?S and b = 0, OF p v]
  show ?thesis by (simp add: sendJSON_status)
qed

section \<open>Startup and connection upgrade\<close>

text \<open>
  C7. If the port is already bound when \<^verbatim>\<open>start()\<close> is called (the listen attempt answers
  with the error \<^verbatim>\<open>EADDRINUSE\<close>), the promise rejects with an error whose message names the
  port; the port is tried once (the system's state afterwards is the one that single
  attempt left), and the Leader is unchanged, so no server is recorded.
\<close>

theorem start_port_in_use:
  assumes "listen (port l) env = (ErrorEvent err, env')"
    and "code err = Some ''EADDRINUSE''"
  shows "start listen l env =
           (Rejected (ErrorObj (''Port '' @ show_nat (port l) @ '' already in use'')), l, env')"
  using assms by (simp add: start_def)

theorem start_port_in_use_witness:
  "start (\<lambda>p attempts. (ErrorEvent \<lparr>code = Some ''EADDRINUSE'',
                                     message = ''listen EADDRINUSE: address already in use''\<rparr>,
                         Suc attempts))
         (new_Leader 1994 ()) (0::nat) =
     (Rejected (ErrorObj ''Port 1994 already in use''),
      \<lparr>port = 1994, bridge = (), server = None\<rparr>, 1)"
proof -
  let ?E = "\<lparr>code = Some ''EADDRINUSE'', message = ''listen EADDRINUSE: address already in use''\<rparr>"
  let ?listen = "\<lambda>(p::nat) attempts. (ErrorEvent ?E, Suc attempts)"
  have h: "?listen (port (new_Leader 1994 ())) 0 = (ErrorEvent ?E, 1)" by simp
  have c: "code ?E = Some ''EADDRINUSE''" by simp
  have s: "show_nat 1994 = ''1994''" by (simp add: show_nat.simps)
  from start_port_in_use
         [where listen = ?listen and l = "new_Leader 1994 ()" and env = 0 and env' = 1
            and err = ?E, OF h c] s
  show ?thesis by (simp add: new_Leader_def)
qed

text \<open>
  C8, as amended. A connection-upgrade request whose request target (\<^verbatim>\<open>req.url\<close>, the path
  together with any query string) is exactly \<^verbatim>\<open>/ws\<close> is handed to the Bridge's upgrade
  handler, and the listener does nothing else with it. An upgrade request with any other
  request target is refused: its socket is destroyed, the Bridge's state is unchanged and
  the outcome is the same whatever the Bridge's handler would do, so the Bridge never sees
  it.
\<close>

theorem on_upgrade_routes:
  "(url req = ''/ws'' \<longrightarrow> on_upgrade H req socket h b = H req socket h b) \<and>
   (url req \<noteq> ''/ws'' \<longrightarrow>
      on_upgrade H req socket h b = (socket\<lparr>destroyed := True\<rparr>, b) \<and>
      on_upgrade H req socket h b = on_upgrade H' req socket h b)"
  by (simp add: on_upgrade_def)

theorem on_upgrade_routes_witness:
  "on_upgrade (\<lambda>req s h conns. (s, Suc conns))
       \<lparr>url = ''/ws'', req_method = ''GET''\<rparr> \<lparr>destroyed = False\<rparr> '''' (0::nat) =
     (\<lparr>destroyed = False\<rparr>, 1) \<and>
   on_upgrade (\<lambda>req s h conns. (s, Suc conns))
       \<lparr>url = ''/rpc'', req_method = ''GET''\<rparr> \<lparr>destroyed = False\<rparr> '''' (0::nat) =
     (\<lparr>destroyed = True\<rparr>, 0)"
  using on_upgrade_routes [of "\<lparr>url = ''/ws'', req_method = ''GET''\<rparr>"
          "\<lambda>req s h conns. (s, Suc conns)" "\<lparr>destroyed = False\<rparr>" "''''" "0::nat"]
        on_upgrade_routes [of "\<lparr>url = ''/rpc'', req_method = ''GET''\<rparr>"
          "\<lambda>req s h conns. (s, Suc conns)" "\<lparr>destroyed = False\<rparr>" "''''" "0::nat"]
  by simp

text \<open>
  C8 as it was stated fails: the upgrade request to \<^verbatim>\<open>/ws?fileKey=abc\<close> has the path \<^verbatim>\<open>/ws\<close>,
  yet its socket is destroyed and the Bridge's handler is not called (the Bridge's state,
  which the handler would change, is as before), because the listener compares the whole
  request target with \<^verbatim>\<open>/ws\<close>.
\<close>

theorem on_upgrade_query_counterexample:
  "request_path ''/ws?fileKey=abc'' = ''/ws'' \<and>
   on_upgrade (\<lambda>req s h conns. (s, Suc conns))
       \<lparr>url = ''/ws?fileKey=abc'', req_method = ''GET''\<rparr> \<lparr>destroyed = False\<rparr> [] (0::nat) =
     (\<lparr>destroyed = True\<rparr>, 0)"
  by (simp add: request_path_def on_upgrade_def)

end
